theory Spec2Isabelle
  imports Main "HOL-Library.AList" "HOL-Library.Dlist" "HOL-Library.Sublist"
begin

unbundle bit_operations_syntax

section \<open>FLIRT signature selection and match reconciliation (angr/analyses/flirt.py)\<close>

subsection \<open>Python values\<close>

text \<open>
  A Python \<open>str\<close> is modelled as a \<open>string\<close>: a list of characters with code points
  0..255. A \<open>bytes\<close> value is a list of the same 8-bit characters. Python integers are
  unbounded: \<open>int\<close>.
\<close>

type_synonym bytes = "char list"

datatype error =
    ValueError
  | KeyError
  | AttributeError
  | RuntimeError
  | UnicodeEncodeError
  | IOError
  | FlirtException

text \<open>\<open>s.encode("ascii")\<close>: raises when a code point is outside 0..127.\<close>

definition encode_ascii :: "string \<Rightarrow> error + bytes" where
  "encode_ascii s =
     (if list_all (\<lambda>c. (of_char c :: nat) < 128) s then Inr s else Inl UnicodeEncodeError)"

text \<open>\<open>sub in region\<close> on bytes: true when \<open>sub\<close> occurs as a contiguous run.\<close>

fun bytes_contains :: "bytes \<Rightarrow> bytes \<Rightarrow> bool" where
  "bytes_contains sub [] = (sub = [])"
| "bytes_contains sub (b # region) = (prefix sub (b # region) \<or> bytes_contains sub region)"

text \<open>\<open>str.lower()\<close> on code points 0..255: A-Z and the Latin-1 capitals move up by 32.\<close>

definition lower_char :: "char \<Rightarrow> char" where
  "lower_char c =
     (let n = (of_char c :: nat) in
      if (65 \<le> n \<and> n \<le> 90) \<or> (192 \<le> n \<and> n \<le> 222 \<and> n \<noteq> 215)
      then char_of (n + 32) else c)"

definition lower :: "string \<Rightarrow> string" where
  "lower s = map lower_char s"

text \<open>\<open>max(xs)\<close>: raises ValueError on an empty collection.\<close>

definition py_max :: "int list \<Rightarrow> error + int" where
  "py_max xs = (case xs of [] \<Rightarrow> Inl ValueError | x # ys \<Rightarrow> Inr (fold max ys x))"

text \<open>\<open>format(n, "x")\<close>: lower-case hexadecimal, with a minus sign for negative numbers.\<close>

definition hex_digit :: "nat \<Rightarrow> char" where
  "hex_digit d = (if d < 10 then char_of (48 + d) else char_of (87 + d))"

fun hex_nat :: "nat \<Rightarrow> string" where
  "hex_nat n = (if n < 16 then [hex_digit n] else hex_nat (n div 16) @ [hex_digit (n mod 16)])"

declare hex_nat.simps [simp del]

definition format_x :: "int \<Rightarrow> string" where
  "format_x n = (if n < 0 then CHR ''-'' # hex_nat (nat (- n)) else hex_nat (nat n))"

subsection \<open>Signatures and the catalog (angr.flirt)\<close>

text \<open>
  \<open>FlirtSignature(arch, platform, sig_name, sig_path, unique_strings)\<close>, as the
  constructor call in \<open>__init__\<close> fills it.
\<close>

record FlirtSignature =
  arch :: string
  platform :: string
  sig_name :: string
  sig_path :: string
  unique_strings :: "string list option"

text \<open>
  The three process-wide dictionaries. A dictionary is an association list in insertion
  order. The libraries of a token are a Python set: a list without repetitions, whose
  order is the order in which the set is iterated.
\<close>

record catalog =
  STRING_TO_LIBRARIES :: "(string \<times> string dlist) list"
  LIBRARY_TO_SIGNATURES :: "(string \<times> FlirtSignature list) list"
  FLIRT_SIGNATURES_BY_ARCH :: "(string \<times> FlirtSignature list) list"

subsection \<open>Selection by strings: \<open>_find_hits_by_strings\<close>\<close>

text \<open>\<open>library_hits\<close> is a \<open>defaultdict(int)\<close>: a missing library counts 0.\<close>

type_synonym library_hits = "(string \<times> nat) list"

definition hits_of :: "library_hits \<Rightarrow> string \<Rightarrow> nat" where
  "hits_of h lib = (case map_of h lib of None \<Rightarrow> 0 | Some n \<Rightarrow> n)"

text \<open>\<open>library_hits[lib] += 1\<close>: a new key goes to the end, a known key keeps its place.\<close>

definition incr_hit :: "string \<Rightarrow> library_hits \<Rightarrow> library_hits" where
  "incr_hit lib h = AList.update lib (hits_of h lib + 1) h"

text \<open>The loop over the regions for one token \<open>s\<close> with libraries \<open>libs\<close>.\<close>

fun scan_regions :: "string \<Rightarrow> string dlist \<Rightarrow> bytes list \<Rightarrow> library_hits \<Rightarrow> error + library_hits" where
  "scan_regions s libs [] h = Inr h"
| "scan_regions s libs (region # regions) h =
     (case encode_ascii s of
        Inl e \<Rightarrow> Inl e
      | Inr b \<Rightarrow>
          scan_regions s libs regions
            (if bytes_contains b region then fold incr_hit (list_of_dlist libs) h else h))"

text \<open>The loop over \<open>STRING_TO_LIBRARIES.items()\<close>.\<close>

fun scan_tokens :: "(string \<times> string dlist) list \<Rightarrow> bytes list \<Rightarrow> library_hits \<Rightarrow> error + library_hits" where
  "scan_tokens [] regions h = Inr h"
| "scan_tokens ((s, libs) # items) regions h =
     (case scan_regions s libs regions h of
        Inl e \<Rightarrow> Inl e
      | Inr h' \<Rightarrow> scan_tokens items regions h')"

text \<open>
  \<open>sorted(library_hits.keys(), key=..., reverse=True)\<close>: a stable sort, largest count
  first, equal counts in the order of the keys.
\<close>

definition sorted_libraries :: "library_hits \<Rightarrow> string list" where
  "sorted_libraries h = sort_key (\<lambda>lib. - int (hits_of h lib)) (map fst h)"

text \<open>
  \<open>LIBRARY_TO_SIGNATURES[lib]\<close>: the dictionary is a \<open>defaultdict(list)\<close>, declared in
  \<open>angr.flirt\<close>; a library without an entry has no signatures, and the lookup does not
  raise.
\<close>

definition library_signatures :: "catalog \<Rightarrow> string \<Rightarrow> FlirtSignature list" where
  "library_signatures cat lib =
     (case map_of (LIBRARY_TO_SIGNATURES cat) lib of None \<Rightarrow> [] | Some sigs \<Rightarrow> sigs)"

text \<open>The generator's loops over the sorted libraries and over the signatures of each.\<close>

fun yield_signatures :: "catalog \<Rightarrow> string \<Rightarrow> string list \<Rightarrow> FlirtSignature list" where
  "yield_signatures cat arch_lowercase [] = []"
| "yield_signatures cat arch_lowercase (lib # libs) =
     filter (\<lambda>sig. arch sig = arch_lowercase) (library_signatures cat lib)
     @ yield_signatures cat arch_lowercase libs"

text \<open>\<open>list(self._find_hits_by_strings(regions))\<close>, with \<open>arch_name = self.project.arch.name\<close>.\<close>

definition find_hits_by_strings :: "catalog \<Rightarrow> string \<Rightarrow> bytes list \<Rightarrow> error + FlirtSignature list" where
  "find_hits_by_strings cat arch_name regions =
     (case scan_tokens (STRING_TO_LIBRARIES cat) regions [] of
        Inl e \<Rightarrow> Inl e
      | Inr h \<Rightarrow> Inr (yield_signatures cat (lower arch_name) (sorted_libraries h)))"

subsection \<open>Functions of the knowledge base\<close>

text \<open>
  The attributes of a \<open>Function\<close> that the analysis reads and writes.
  \<open>block_addrs_set\<close> lists the members of the set of block addresses;
  \<open>block_size func a\<close> is \<open>func.get_block(a).size\<close>.
\<close>

record Function =
  addr :: int
  name :: string
  is_default_name :: bool
  is_simprocedure :: bool
  is_plt :: bool
  from_signature :: "string option"
  block_addrs_set :: "int list"
  block_size :: "int \<Rightarrow> int"

text \<open>
  The function manager \<open>kb.functions\<close> holds the function objects, keyed by their
  address; \<open>values()\<close> enumerates them in the order of the list. A position in the list
  is the identity of a function object: the analysis renames objects in place, and the
  object it scans is the object the manager holds.
\<close>

type_synonym function_manager = "Function list"

text \<open>\<open>kb.functions.get_by_addr(a)\<close>: the object keyed by \<open>a\<close>, or KeyError.\<close>

fun get_by_addr_from :: "nat \<Rightarrow> function_manager \<Rightarrow> int \<Rightarrow> error + nat" where
  "get_by_addr_from i [] a = Inl KeyError"
| "get_by_addr_from i (f # fs) a = (if addr f = a then Inr i else get_by_addr_from (Suc i) fs a)"

definition get_by_addr :: "function_manager \<Rightarrow> int \<Rightarrow> error + nat" where
  "get_by_addr kb a = get_by_addr_from 0 kb a"

text \<open>A hit of the matcher: \<open>nampa.FlirtFunction\<close> with its \<open>offset\<close> and \<open>name\<close>.\<close>

record FlirtFunction =
  ff_offset :: int
  ff_name :: string

subsection \<open>Naming: \<open>_on_func_matched\<close>\<close>

text \<open>Lines 125-134: the final check and the assignment, on one function object.\<close>

definition set_name :: "FlirtFunction \<Rightarrow> Function \<Rightarrow> Function" where
  "set_name flirt_func func =
     (if is_default_name func then
        func\<lparr> name := (if ff_name flirt_func \<noteq> ''?'' then ff_name flirt_func
                       else ''unknown_function_'' @ format_x (addr func)),
              is_default_name := False,
              from_signature := Some ''flirt'' \<rparr>
      else func)"

text \<open>
  Lines 106-123: the object the hit is about. \<open>func\<close> is the scanned object; another
  address is looked up, on ARM a second time one byte higher.
\<close>

definition resolve_func :: "bool \<Rightarrow> function_manager \<Rightarrow> nat \<Rightarrow> int \<Rightarrow> FlirtFunction \<Rightarrow> nat option" where
  "resolve_func is_arm kb func base_addr flirt_func =
     (let func_addr = base_addr + ff_offset flirt_func in
      if func_addr \<noteq> base_addr then
        (case get_by_addr kb func_addr of
           Inr f \<Rightarrow> Some f
         | Inl e \<Rightarrow>
             if is_arm then
               (case get_by_addr kb (func_addr + 1) of
                  Inr f \<Rightarrow> Some f
                | Inl e' \<Rightarrow> None)
             else None)
      else Some func)"

definition on_func_matched :: "bool \<Rightarrow> nat \<Rightarrow> int \<Rightarrow> FlirtFunction \<Rightarrow> function_manager \<Rightarrow> function_manager" where
  "on_func_matched is_arm func base_addr flirt_func kb =
     (case resolve_func is_arm kb func base_addr flirt_func of
        None \<Rightarrow> kb
      | Some f \<Rightarrow> kb[f := set_name flirt_func (kb ! f)])"

subsection \<open>The project: loader, signature files and the external matcher\<close>

record segment =
  vaddr :: int
  memsize :: int
  filesize :: int

text \<open>
  What the analysis takes from its surroundings: the architecture and OS names,
  \<open>is_arm_arch(project.arch)\<close>, the segments of the main object, \<open>loader.memory.load\<close>,
  \<open>open(path, "rb")\<close> (the content of the file), \<open>nampa.parse_flirt_file\<close>, and
  \<open>nampa.match_function\<close>, which calls the callback once for each hit of the list it
  returns here, in order.
\<close>

record 'db project =
  arch_name :: string
  simos_name :: string
  is_arm_arch :: bool
  segments :: "segment list"
  memory_load :: "int \<Rightarrow> int \<Rightarrow> error + bytes"
  open_rb :: "string \<Rightarrow> error + bytes"
  parse_flirt_file :: "bytes \<Rightarrow> error + 'db"
  match_function :: "'db \<Rightarrow> bytes \<Rightarrow> int \<Rightarrow> FlirtFunction list"

subsection \<open>Matching one signature: \<open>_match_all_against_one_signature\<close>\<close>

text \<open>Lines 83-87: a function is scanned when none of the three skips applies.\<close>

definition eligible :: "Function \<Rightarrow> bool" where
  "eligible func = (\<not> (is_simprocedure func \<or> is_plt func) \<and> is_default_name func)"

text \<open>Lines 89-98: the window \<open>(start, end)\<close>.\<close>

definition scan_window :: "bool \<Rightarrow> Function \<Rightarrow> error + (int \<times> int)" where
  "scan_window is_arm func =
     (let start = addr func;
          start = (if is_arm then start AND 0xfffffffe else start)
      in case py_max (block_addrs_set func) of
           Inl e \<Rightarrow> Inl e
         | Inr max_block_addr \<Rightarrow>
             (let end = max_block_addr + block_size func max_block_addr;
                  end = (if is_arm then end AND 0xfffffffe else end)
              in Inr (start, end)))"

text \<open>The body of the loop for the function object at position \<open>i\<close>.\<close>

definition match_one_function :: "'db project \<Rightarrow> bool \<Rightarrow> 'db \<Rightarrow> nat \<Rightarrow> function_manager \<Rightarrow> error + function_manager" where
  "match_one_function p is_arm flirt i kb =
     (let func = kb ! i in
      if is_simprocedure func \<or> is_plt func then Inr kb
      else if \<not> is_default_name func then Inr kb
      else
        (case scan_window is_arm func of
           Inl e \<Rightarrow> Inl e
         | Inr (start, end) \<Rightarrow>
             (case memory_load p start (end - start + 0x100) of
                Inl e \<Rightarrow> Inl e
              | Inr func_bytes \<Rightarrow>
                  Inr (fold (on_func_matched is_arm i start)
                         (match_function p flirt func_bytes start) kb))))"

text \<open>
  The loop over \<open>kb.functions.values()\<close>. An exception leaves the loop; what was
  renamed before stays renamed.
\<close>

fun match_functions :: "'db project \<Rightarrow> bool \<Rightarrow> 'db \<Rightarrow> nat list \<Rightarrow> function_manager \<Rightarrow> error option \<times> function_manager" where
  "match_functions p is_arm flirt [] kb = (None, kb)"
| "match_functions p is_arm flirt (i # rest) kb =
     (case match_one_function p is_arm flirt i kb of
        Inl e \<Rightarrow> (Some e, kb)
      | Inr kb' \<Rightarrow> match_functions p is_arm flirt rest kb')"

text \<open>
  What a run changes outside the analysis object: the functions of the knowledge base
  and the file handles that are open (one entry per handle, the path it was opened on).
\<close>

record world =
  kb_functions :: function_manager
  open_files :: "string list"

text \<open>
  The \<open>with open(...)\<close> block: the handle is open while the file is parsed and the
  functions are matched, and closed when the block is left, normally or by an exception.
\<close>

definition match_all_against_one_signature :: "'db project \<Rightarrow> bool \<Rightarrow> FlirtSignature \<Rightarrow> world \<Rightarrow> error option \<times> world" where
  "match_all_against_one_signature p is_arm sig w =
     (case open_rb p (sig_path sig) of
        Inl e \<Rightarrow> (Some e, w)
      | Inr sigfile \<Rightarrow>
          (let w1 = w\<lparr> open_files := sig_path sig # open_files w \<rparr> in
           case parse_flirt_file p sigfile of
             Inl e \<Rightarrow> (Some e, w1\<lparr> open_files := remove1 (sig_path sig) (open_files w1) \<rparr>)
           | Inr flirt \<Rightarrow>
               (case match_functions p is_arm flirt [0 ..< length (kb_functions w1)] (kb_functions w1) of
                  (r, kb') \<Rightarrow>
                    (r, w1\<lparr> kb_functions := kb',
                            open_files := remove1 (sig_path sig) (open_files w1) \<rparr>))))"

subsection \<open>The analysis: \<open>__init__\<close>\<close>

text \<open>The loop of lines 57-58: an exception of one signature ends the loop.\<close>

fun match_signatures :: "'db project \<Rightarrow> bool \<Rightarrow> FlirtSignature list \<Rightarrow> world \<Rightarrow> error option \<times> world" where
  "match_signatures p is_arm [] w = (None, w)"
| "match_signatures p is_arm (sig # sigs) w =
     (case match_all_against_one_signature p is_arm sig w of
        (Some e, w') \<Rightarrow> (Some e, w')
      | (None, w') \<Rightarrow> match_signatures p is_arm sigs w')"

text \<open>The argument \<open>sig\<close>: \<open>None\<close>, a path, or a signature object.\<close>

datatype sig_arg = SigNone | SigPath string | SigObject FlirtSignature

text \<open>Python's truth value of the argument: an object is true, a string when not empty.\<close>

fun truthy :: "sig_arg \<Rightarrow> bool" where
  "truthy SigNone = False"
| "truthy (SigPath path) = (path \<noteq> [])"
| "truthy (SigObject s) = True"

text \<open>
  The attributes \<open>__init__\<close> assigns on the analysis object; \<open>None\<close> is an attribute
  that was never assigned, and reading it raises AttributeError.
\<close>

record analysis =
  signatures :: "FlirtSignature list option"
  is_arm_attr :: "bool option"

definition new_analysis :: analysis where
  "new_analysis = \<lparr> signatures = None, is_arm_attr = None \<rparr>"

text \<open>Lines 48-50: the list comprehension over the segments.\<close>

fun load_regions :: "'db project \<Rightarrow> segment list \<Rightarrow> error + bytes list" where
  "load_regions p [] = Inr []"
| "load_regions p (seg # segs) =
     (if filesize seg > 0 \<and> memsize seg > 0 then
        (case memory_load p (vaddr seg) (memsize seg) of
           Inl e \<Rightarrow> Inl e
         | Inr region \<Rightarrow>
             (case load_regions p segs of
                Inl e \<Rightarrow> Inl e
              | Inr regions \<Rightarrow> Inr (region # regions)))
      else load_regions p segs)"

text \<open>Lines 34-53: what \<open>self.signatures\<close> is after the choice of the mode.\<close>

definition select_signatures :: "'db project \<Rightarrow> catalog \<Rightarrow> sig_arg \<Rightarrow> analysis \<Rightarrow> error + analysis" where
  "select_signatures p cat sig self =
     (if truthy sig then
        (case sig of
           SigPath path \<Rightarrow>
             Inr (self\<lparr> signatures :=
                    Some [\<lparr> arch = lower (arch_name p), platform = lower (simos_name p),
                            sig_name = ''Temporary'', sig_path = path,
                            unique_strings = None \<rparr>] \<rparr>)
         | _ \<Rightarrow> Inr self)
      else if FLIRT_SIGNATURES_BY_ARCH cat = [] then Inl RuntimeError
      else
        (case load_regions p (segments p) of
           Inl e \<Rightarrow> Inl e
         | Inr mem_regions \<Rightarrow>
             (case find_hits_by_strings cat (arch_name p) mem_regions of
                Inl e \<Rightarrow> Inl e
              | Inr sigs \<Rightarrow> Inr (self\<lparr> signatures := Some sigs \<rparr>))))"

definition FlirtAnalysis_init :: "'db project \<Rightarrow> catalog \<Rightarrow> sig_arg \<Rightarrow> world \<Rightarrow> error option \<times> analysis \<times> world" where
  "FlirtAnalysis_init p cat sig w =
     (case select_signatures p cat sig new_analysis of
        Inl e \<Rightarrow> (Some e, new_analysis, w)
      | Inr self \<Rightarrow>
          (let self = self\<lparr> is_arm_attr := Some (is_arm_arch p) \<rparr> in
           case signatures self of
             None \<Rightarrow> (Some AttributeError, self, w)
           | Some sigs \<Rightarrow>
               (case match_signatures p (is_arm_arch p) sigs w of
                  (r, w') \<Rightarrow> (r, self, w'))))"

text \<open>The signature that lines 37-38 build for a path.\<close>

definition temporary_signature :: "'db project \<Rightarrow> string \<Rightarrow> FlirtSignature" where
  "temporary_signature p path =
     \<lparr> arch = lower (arch_name p), platform = lower (simos_name p),
       sig_name = ''Temporary'', sig_path = path, unique_strings = None \<rparr>"

subsection \<open>The selection as the specification words it\<close>

text \<open>
  The number of hits of a library: the pairs of a catalog token and a buffer such that
  the library is one of the token's libraries and the token occurs in the buffer.
\<close>

definition hit_count :: "catalog \<Rightarrow> bytes list \<Rightarrow> string \<Rightarrow> nat" where
  "hit_count cat regions lib =
     length (filter (\<lambda>((s, libs), region). lib \<in> set (list_of_dlist libs) \<and> sublist s region)
               (List.product (STRING_TO_LIBRARIES cat) regions))"

text \<open>A catalog all of whose tokens are ASCII: every token can be encoded.\<close>

definition wf_catalog :: "catalog \<Rightarrow> bool" where
  "wf_catalog cat =
     list_all (\<lambda>(s, libs). list_all (\<lambda>c. (of_char c :: nat) < 128) s) (STRING_TO_LIBRARIES cat)"

text \<open>The keys of \<open>library_hits\<close> are distinct, and they are the libraries with a count above 0.\<close>

definition hits_inv :: "library_hits \<Rightarrow> bool" where
  "hits_inv h \<longleftrightarrow> distinct (map fst h) \<and> (\<forall>l. l \<in> fst ` set h \<longleftrightarrow> 0 < hits_of h l)"

subsection \<open>Concrete inputs\<close>

text \<open>
  A project whose loader returns no bytes, whose signature files parse unless the file is
  \<open>bad.sig\<close>, and whose matcher reports the given hits for every function it scans.
\<close>

definition example_project :: "bool \<Rightarrow> FlirtFunction list \<Rightarrow> bytes project" where
  "example_project arm hits =
     \<lparr> arch_name = ''X86'', simos_name = ''Linux'', is_arm_arch = arm, segments = [],
       memory_load = (\<lambda>a n. Inr []),
       open_rb = (\<lambda>path. Inr path),
       parse_flirt_file = (\<lambda>content. if content = ''bad.sig'' then Inl FlirtException else Inr content),
       match_function = (\<lambda>flirt func_bytes start. hits) \<rparr>"

text \<open>An unnamed function at \<open>a\<close> with the given blocks, each 16 bytes long.\<close>

definition example_function :: "int \<Rightarrow> int list \<Rightarrow> Function" where
  "example_function a blocks =
     \<lparr> addr = a, name = ''sub'', is_default_name = True, is_simprocedure = False,
       is_plt = False, from_signature = None, block_addrs_set = blocks,
       block_size = (\<lambda>b. 0x10) \<rparr>"

definition empty_catalog :: catalog where
  "empty_catalog = \<lparr> STRING_TO_LIBRARIES = [], LIBRARY_TO_SIGNATURES = [], FLIRT_SIGNATURES_BY_ARCH = [] \<rparr>"

text \<open>An unnamed function at 0x2000 and one at 0x2010 that is already called \<open>main\<close>.\<close>

definition named_world :: world where
  "named_world =
     \<lparr> kb_functions = [example_function 0x2000 [0x2000],
                        (example_function 0x2010 [0x2010])\<lparr> name := ''main'', is_default_name := False \<rparr>],
       open_files = [] \<rparr>"

definition two_hits :: "FlirtFunction list" where
  "two_hits = [\<lparr> ff_offset = 0, ff_name = ''memcpy'' \<rparr>, \<lparr> ff_offset = 0x10, ff_name = ''strlen'' \<rparr>]"

text \<open>A Thumb function at 0x1001 with blocks at 0x1001 and 0x1021.\<close>

definition thumb_function :: Function where
  "thumb_function = example_function 0x1001 [0x1001, 0x1021]"

text \<open>A Thumb function above the 32-bit range.\<close>

definition high_thumb_function :: Function where
  "high_thumb_function = example_function 0x100000001 [0x100000001]"

text \<open>The function of the scenario: start 0x1000, last block at 0x1020 of size 0x10.\<close>

definition scenario_function :: Function where
  "scenario_function = example_function 0x1000 [0x1000, 0x1020, 0x1010]"

text \<open>On ARM: a function at 0x1000 and a Thumb function at 0x1021.\<close>

definition thumb_kb :: function_manager where
  "thumb_kb = [example_function 0x1000 [0x1000], example_function 0x1021 [0x1021]]"

definition thumb_hit :: FlirtFunction where
  "thumb_hit = \<lparr> ff_offset = 0x20, ff_name = ''strlen'' \<rparr>"

text \<open>A function without blocks, between two unnamed functions that have a block.\<close>

definition blockless_world :: world where
  "blockless_world =
     \<lparr> kb_functions = [example_function 0x1000 [0x1000],
                        example_function 0x2000 [],
                        example_function 0x3000 [0x3000]],
       open_files = [] \<rparr>"

text \<open>One unnamed function at 0x1000, and a matcher that recognises its start.\<close>

definition single_world :: world where
  "single_world = \<lparr> kb_functions = [example_function 0x1000 [0x1000]], open_files = [] \<rparr>"

definition start_hit :: "FlirtFunction list" where
  "start_hit = [\<lparr> ff_offset = 0, ff_name = ''memcpy'' \<rparr>]"

text \<open>
  An unnamed function at 0x1000 and an unnamed stub at 0x1010, and a matcher that reports
  \<open>memcpy\<close> 16 bytes after the start of the function it scans.
\<close>

definition stub_world :: world where
  "stub_world =
     \<lparr> kb_functions = [example_function 0x1000 [0x1000],
                        (example_function 0x1010 [0x1010])\<lparr> is_plt := True \<rparr>],
       open_files = [] \<rparr>"

definition stub_hit :: "FlirtFunction list" where
  "stub_hit = [\<lparr> ff_offset = 0x10, ff_name = ''memcpy'' \<rparr>]"

text \<open>
  The catalog of the scenario: \<open>zlib\<close> is known by the token \<open>inflate 1.2.11\<close> and has
  two x86 signatures and one for amd64; another library is known by another token.
\<close>

definition zlib_x86_linux :: FlirtSignature where
  "zlib_x86_linux = \<lparr> arch = ''x86'', platform = ''linux'', sig_name = ''zlib'',
                       sig_path = ''zlib_linux.sig'', unique_strings = None \<rparr>"

definition zlib_amd64_linux :: FlirtSignature where
  "zlib_amd64_linux = \<lparr> arch = ''amd64'', platform = ''linux'', sig_name = ''zlib'',
                         sig_path = ''zlib_linux64.sig'', unique_strings = None \<rparr>"

definition zlib_x86_win32 :: FlirtSignature where
  "zlib_x86_win32 = \<lparr> arch = ''x86'', platform = ''win32'', sig_name = ''zlib'',
                       sig_path = ''zlib_win32.sig'', unique_strings = None \<rparr>"

definition openssl_x86_linux :: FlirtSignature where
  "openssl_x86_linux = \<lparr> arch = ''x86'', platform = ''linux'', sig_name = ''openssl'',
                          sig_path = ''openssl.sig'', unique_strings = None \<rparr>"

definition scenario_catalog :: catalog where
  "scenario_catalog =
     \<lparr> STRING_TO_LIBRARIES =
         [(''OpenSSL 1.0.2'', Dlist [''openssl'']), (''inflate 1.2.11'', Dlist [''zlib''])],
       LIBRARY_TO_SIGNATURES =
         [(''openssl'', [openssl_x86_linux]),
          (''zlib'', [zlib_x86_linux, zlib_amd64_linux, zlib_x86_win32])],
       FLIRT_SIGNATURES_BY_ARCH =
         [(''x86'', [openssl_x86_linux, zlib_x86_linux, zlib_x86_win32]),
          (''amd64'', [zlib_amd64_linux])] \<rparr>"

definition scenario_buffer :: bytes where
  "scenario_buffer = '' inflate 1.2.11 Copyright 1995-2017 Mark Adler ''"

text \<open>A catalog whose only signature stores its architecture in capitals.\<close>

definition capital_signature :: FlirtSignature where
  "capital_signature = \<lparr> arch = ''X86'', platform = ''linux'', sig_name = ''zlib'',
                          sig_path = ''zlib.sig'', unique_strings = None \<rparr>"

definition capital_catalog :: catalog where
  "capital_catalog =
     \<lparr> STRING_TO_LIBRARIES = [(''inflate 1.2.11'', Dlist [''zlib''])],
       LIBRARY_TO_SIGNATURES = [(''zlib'', [capital_signature])],
       FLIRT_SIGNATURES_BY_ARCH = [(''X86'', [capital_signature])] \<rparr>"

text \<open>
  The catalog of the scenario with one more token, whose last character is the code
  point 0xE9 and so is not ASCII.
\<close>

definition latin_catalog :: catalog where
  "latin_catalog =
     scenario_catalog
       \<lparr> STRING_TO_LIBRARIES :=
           STRING_TO_LIBRARIES scenario_catalog @ [(''libcaf'' @ [CHR 0xE9], Dlist [''cafe''])] \<rparr>"

section \<open>Properties\<close>

subsection \<open>Helper facts\<close>

lemma py_max_Max:
  assumes "xs \<noteq> []"
  shows "py_max xs = Inr (Max (set xs))"
proof (cases xs)
  case Nil
  with assms show ?thesis by simp
next
  case (Cons x ys)
  then show ?thesis
    using Max.set_eq_fold [of x ys] by (simp add: py_max_def)
qed

lemma py_max_empty: "py_max [] = Inl ValueError"
  by (simp add: py_max_def)

lemma thumb_mask_push: "(0xfffffffe :: int) = push_bit 1 (mask 31)"
  by (simp add: mask_eq_exp_minus_1 push_bit_eq_mult)

lemma bit_thumb_mask: "bit (x AND (0xfffffffe :: int)) n \<longleftrightarrow> bit x n \<and> 0 < n \<and> n < 32"
proof -
  have "bit (push_bit 1 (mask 31 :: int)) n \<longleftrightarrow> 0 < n \<and> n < 32"
    unfolding bit_push_bit_iff bit_mask_iff by auto
  then show ?thesis
    unfolding thumb_mask_push bit_and_iff by blast
qed

lemma thumb_mask_low:
  assumes "0 \<le> x" and "x < 2 ^ 32"
  shows "x AND (0xfffffffe :: int) = x - x mod 2"
proof -
  have tb: "take_bit 32 x = x"
    using assms by (simp add: take_bit_int_eq_self)
  have "bit (x AND 0xfffffffe) n = bit (2 * (x div 2)) n" for n
  proof -
    have "bit x n \<Longrightarrow> n < 32"
      by (metis tb bit_take_bit_iff)
    then show ?thesis
      by (cases n) (auto simp add: bit_thumb_mask bit_double_iff bit_Suc simp flip: bit_Suc)
  qed
  then have "x AND 0xfffffffe = 2 * (x div 2)"
    by (rule bit_eqI)
  then show ?thesis
    by (simp add: minus_mod_eq_mult_div)
qed

lemma set_name_named: "\<not> is_default_name func \<Longrightarrow> set_name flirt_func func = func"
  by (simp add: set_name_def)

lemma on_func_matched_length: "length (on_func_matched is_arm func base_addr flirt_func kb) = length kb"
  by (simp add: on_func_matched_def split: option.splits)

lemma on_func_matched_named:
  "\<not> is_default_name (kb ! i) \<Longrightarrow> on_func_matched is_arm func base_addr flirt_func kb ! i = kb ! i"
proof (cases "resolve_func is_arm kb func base_addr flirt_func")
  case None
  then show ?thesis by (simp add: on_func_matched_def)
next
  case (Some f)
  assume named: "\<not> is_default_name (kb ! i)"
  show ?thesis
  proof (cases "f = i")
    case True
    show ?thesis
    proof (cases "i < length kb")
      case True
      with \<open>f = i\<close> Some named show ?thesis
        by (simp add: on_func_matched_def set_name_named)
    next
      case False
      with \<open>f = i\<close> Some show ?thesis
        by (simp add: on_func_matched_def list_update_beyond)
    qed
  next
    case False
    with Some show ?thesis by (simp add: on_func_matched_def)
  qed
qed

lemma fold_on_func_matched_length:
  "length (fold (on_func_matched is_arm func base_addr) hits kb) = length kb"
  by (induction hits arbitrary: kb) (simp_all add: on_func_matched_length)

lemma fold_on_func_matched_named:
  "\<not> is_default_name (kb ! i) \<Longrightarrow>
   fold (on_func_matched is_arm func base_addr) hits kb ! i = kb ! i"
proof (induction hits arbitrary: kb)
  case Nil
  then show ?case by simp
next
  case (Cons hit hits)
  have "\<not> is_default_name (on_func_matched is_arm func base_addr hit kb ! i)"
    using Cons.prems by (simp add: on_func_matched_named)
  then show ?case
    using Cons.IH Cons.prems by (simp add: on_func_matched_named)
qed

lemma match_one_function_cases:
  assumes "match_one_function p is_arm flirt j kb = Inr kb'"
  shows "kb' = kb \<or>
         (\<exists>start hits. kb' = fold (on_func_matched is_arm j start) hits kb)"
  using assms
  by (auto simp add: match_one_function_def Let_def split: if_splits sum.splits prod.splits)

lemma match_one_function_length:
  "match_one_function p is_arm flirt j kb = Inr kb' \<Longrightarrow> length kb' = length kb"
  using match_one_function_cases fold_on_func_matched_length by metis

lemma match_one_function_named:
  "match_one_function p is_arm flirt j kb = Inr kb' \<Longrightarrow> \<not> is_default_name (kb ! i) \<Longrightarrow>
   kb' ! i = kb ! i"
  using match_one_function_cases fold_on_func_matched_named by metis

lemma match_functions_length:
  "length (snd (match_functions p is_arm flirt js kb)) = length kb"
proof (induction js arbitrary: kb)
  case Nil
  then show ?case by simp
next
  case (Cons j js)
  then show ?case
    by (cases "match_one_function p is_arm flirt j kb")
       (simp_all add: match_one_function_length)
qed

lemma match_functions_named:
  "\<not> is_default_name (kb ! i) \<Longrightarrow> snd (match_functions p is_arm flirt js kb) ! i = kb ! i"
proof (induction js arbitrary: kb)
  case Nil
  then show ?case by simp
next
  case (Cons j js)
  show ?case
  proof (cases "match_one_function p is_arm flirt j kb")
    case (Inl e)
    then show ?thesis by simp
  next
    case (Inr kb')
    then have same: "kb' ! i = kb ! i"
      using Cons.prems by (rule match_one_function_named)
    then have "snd (match_functions p is_arm flirt js kb') ! i = kb' ! i"
      using Cons.IH Cons.prems by simp
    with Inr same show ?thesis by simp
  qed
qed

lemma match_all_against_one_signature_open_files:
  "open_files (snd (match_all_against_one_signature p is_arm sig w)) = open_files w"
  by (simp add: match_all_against_one_signature_def Let_def split: sum.splits prod.splits)

lemma match_all_against_one_signature_length:
  "length (kb_functions (snd (match_all_against_one_signature p is_arm sig w))) = length (kb_functions w)"
  using match_functions_length [of p is_arm _ "[0 ..< length (kb_functions w)]" "kb_functions w"]
  by (simp add: match_all_against_one_signature_def Let_def split_beta split: sum.splits)

lemma match_all_against_one_signature_named:
  assumes "\<not> is_default_name (kb_functions w ! i)"
  shows "kb_functions (snd (match_all_against_one_signature p is_arm sig w)) ! i = kb_functions w ! i"
  using match_functions_named [OF assms, of p is_arm _ "[0 ..< length (kb_functions w)]"]
  by (simp add: match_all_against_one_signature_def Let_def split_beta split: sum.splits)

lemma match_signatures_open_files:
  "open_files (snd (match_signatures p is_arm sigs w)) = open_files w"
proof (induction sigs arbitrary: w)
  case Nil
  then show ?case by simp
next
  case (Cons sig sigs)
  obtain r w' where step: "match_all_against_one_signature p is_arm sig w = (r, w')"
    by (cases "match_all_against_one_signature p is_arm sig w")
  have "open_files w' = open_files w"
    using match_all_against_one_signature_open_files [of p is_arm sig w] step by simp
  then show ?case
    using Cons.IH [of w'] step by (cases r) simp_all
qed

lemma match_signatures_named:
  "\<not> is_default_name (kb_functions w ! i) \<Longrightarrow>
   kb_functions (snd (match_signatures p is_arm sigs w)) ! i = kb_functions w ! i"
proof (induction sigs arbitrary: w)
  case Nil
  then show ?case by simp
next
  case (Cons sig sigs)
  obtain r w' where step: "match_all_against_one_signature p is_arm sig w = (r, w')"
    by (cases "match_all_against_one_signature p is_arm sig w")
  have same: "kb_functions w' ! i = kb_functions w ! i"
    using match_all_against_one_signature_named [OF Cons.prems, of p is_arm sig] step by simp
  then have "kb_functions (snd (match_signatures p is_arm sigs w')) ! i = kb_functions w' ! i"
    using Cons.IH [of w'] Cons.prems by simp
  with same step show ?case
    by (cases r) simp_all
qed

lemma FlirtAnalysis_init_world:
  "snd (snd (FlirtAnalysis_init p cat sig w)) = w \<or>
   (\<exists>sigs. snd (snd (FlirtAnalysis_init p cat sig w)) = snd (match_signatures p (is_arm_arch p) sigs w))"
  by (auto simp add: FlirtAnalysis_init_def Let_def split_beta split: sum.splits option.splits)

subsection \<open>Existing names are kept\<close>

text \<open>
  C4: a function that carries a non-placeholder name is the same object, with the same
  name and provenance, after the whole run, after each signature and after each single hit,
  whatever the matcher reports and whether or not the run ends by an exception. As the
  statement holds from every state, it covers names given earlier in the same run.
\<close>

theorem non_placeholder_name_never_overwritten:
  assumes "i < length (kb_functions w)" and "\<not> is_default_name (kb_functions w ! i)"
  shows "kb_functions (snd (snd (FlirtAnalysis_init p cat sig w))) ! i = kb_functions w ! i
       \<and> kb_functions (snd (match_all_against_one_signature p is_arm s w)) ! i = kb_functions w ! i
       \<and> on_func_matched is_arm func base_addr flirt_func (kb_functions w) ! i = kb_functions w ! i"
proof -
  have "kb_functions (snd (snd (FlirtAnalysis_init p cat sig w))) ! i = kb_functions w ! i"
    using FlirtAnalysis_init_world [of p cat sig w] match_signatures_named [OF assms(2)]
    by auto
  then show ?thesis
    using assms(2) by (simp add: match_all_against_one_signature_named on_func_matched_named)
qed

theorem non_placeholder_name_never_overwritten_witness:
  "1 < length (kb_functions named_world) \<and> \<not> is_default_name (kb_functions named_world ! 1)
   \<and> kb_functions (snd (snd (FlirtAnalysis_init (example_project False two_hits) empty_catalog
         (SigPath ''libc.sig'') named_world))) ! 1 = kb_functions named_world ! 1
   \<and> name (kb_functions (snd (snd (FlirtAnalysis_init (example_project False two_hits) empty_catalog
         (SigPath ''libc.sig'') named_world))) ! 0) = ''memcpy''"
proof -
  have h1: "1 < length (kb_functions named_world)"
    by (simp add: named_world_def)
  have h2: "\<not> is_default_name (kb_functions named_world ! 1)"
    by (simp add: named_world_def example_function_def)
  have run: "name (kb_functions (snd (snd (FlirtAnalysis_init (example_project False two_hits) empty_catalog
         (SigPath ''libc.sig'') named_world))) ! 0) = ''memcpy''"
    by (simp add: FlirtAnalysis_init_def select_signatures_def new_analysis_def example_project_def
        named_world_def example_function_def two_hits_def match_all_against_one_signature_def
        match_one_function_def scan_window_def py_max_def on_func_matched_def resolve_func_def
        get_by_addr_def set_name_def Let_def)
  show ?thesis
    using h1 h2 run
      non_placeholder_name_never_overwritten [OF h1 h2, of "example_project False two_hits"
        empty_catalog "SigPath ''libc.sig''"]
    by simp
qed

subsection \<open>Construction with a signature object\<close>

text \<open>
  C9: with a signature object as argument the attribute \<open>signatures\<close> is never
  assigned, and the run ends with AttributeError before any file is opened or any
  function is touched. With a non-empty path the attribute holds the one temporary
  signature, and the run is the matching of that signature.
\<close>

theorem signature_object_raises_attribute_error:
  "FlirtAnalysis_init p cat (SigObject s) w =
     (Some AttributeError, \<lparr> signatures = None, is_arm_attr = Some (is_arm_arch p) \<rparr>, w)
   \<and> FlirtAnalysis_init p cat (SigPath (c # cs)) w =
     (fst (match_signatures p (is_arm_arch p) [temporary_signature p (c # cs)] w),
      \<lparr> signatures = Some [temporary_signature p (c # cs)], is_arm_attr = Some (is_arm_arch p) \<rparr>,
      snd (match_signatures p (is_arm_arch p) [temporary_signature p (c # cs)] w))"
  by (simp add: FlirtAnalysis_init_def select_signatures_def new_analysis_def
      temporary_signature_def split_beta)

subsection \<open>The Thumb retry\<close>

lemma resolve_func_lookup:
  "ff_offset hit \<noteq> 0 \<Longrightarrow> get_by_addr kb (base_addr + ff_offset hit) = Inr g \<Longrightarrow>
   resolve_func is_arm kb func base_addr hit = Some g"
  by (simp add: resolve_func_def)

lemma resolve_func_retry:
  "ff_offset hit \<noteq> 0 \<Longrightarrow> get_by_addr kb (base_addr + ff_offset hit) = Inl e \<Longrightarrow>
   resolve_func is_arm kb func base_addr hit =
     (if is_arm then (case get_by_addr kb (base_addr + ff_offset hit + 1) of
                        Inr g \<Rightarrow> Some g | Inl e' \<Rightarrow> None)
      else None)"
  by (simp add: resolve_func_def)

text \<open>
  C8: a hit at another address than the base whose owner lookup fails. On ARM, when the
  lookup one byte higher finds the function \<open>g\<close>, that function is named by the hit,
  exactly as by any hit with the same name whose address is one higher and is resolved
  by the first lookup; this is so for the same scan with the offset one higher, unless
  that offset is 0 and the hit is the scanned function's own start. On other targets
  nothing is looked up again and the function manager stays as it is.
\<close>

theorem thumb_retry_symmetry:
  assumes "base_addr + ff_offset hit \<noteq> base_addr"
    and "get_by_addr kb (base_addr + ff_offset hit) = Inl e"
  shows "(get_by_addr kb (base_addr + ff_offset hit + 1) = Inr g \<longrightarrow>
            on_func_matched True func base_addr hit kb = kb[g := set_name hit (kb ! g)]
          \<and> (\<forall>func' base_addr' hit'.
                base_addr' + ff_offset hit' = base_addr + ff_offset hit + 1
                \<and> base_addr' + ff_offset hit' \<noteq> base_addr' \<and> ff_name hit' = ff_name hit \<longrightarrow>
                on_func_matched True func base_addr hit kb =
                on_func_matched True func' base_addr' hit' kb)
          \<and> (ff_offset hit \<noteq> - 1 \<longrightarrow>
                on_func_matched True func base_addr hit kb =
                on_func_matched True func base_addr (hit\<lparr> ff_offset := ff_offset hit + 1 \<rparr>) kb))
       \<and> on_func_matched False func base_addr hit kb = kb"
proof -
  have offset: "ff_offset hit \<noteq> 0"
    using assms(1) by simp
  have non_arm: "on_func_matched False func base_addr hit kb = kb"
    using offset assms(2) by (simp add: on_func_matched_def resolve_func_retry)
  have arm: "on_func_matched True func base_addr hit kb = kb[g := set_name hit (kb ! g)]"
    if "get_by_addr kb (base_addr + ff_offset hit + 1) = Inr g"
    using offset assms(2) that by (simp add: on_func_matched_def resolve_func_retry)
  have direct: "on_func_matched True func' base_addr' hit' kb = kb[g := set_name hit (kb ! g)]"
    if "get_by_addr kb (base_addr + ff_offset hit + 1) = Inr g"
      and "base_addr' + ff_offset hit' = base_addr + ff_offset hit + 1"
      and "ff_offset hit' \<noteq> 0" and "ff_name hit' = ff_name hit"
    for func' base_addr' hit'
  proof -
    have "resolve_func True kb func' base_addr' hit' = Some g"
      using that by (simp add: resolve_func_lookup)
    moreover have "set_name hit' (kb ! g) = set_name hit (kb ! g)"
      using that(4) by (simp add: set_name_def)
    ultimately show ?thesis
      by (simp add: on_func_matched_def)
  qed
  have same_scan: "on_func_matched True func base_addr hit kb =
      on_func_matched True func base_addr (hit\<lparr> ff_offset := ff_offset hit + 1 \<rparr>) kb"
    if "get_by_addr kb (base_addr + ff_offset hit + 1) = Inr g" and "ff_offset hit \<noteq> - 1"
    using arm [OF that(1)] direct [OF that(1), of base_addr "hit\<lparr> ff_offset := ff_offset hit + 1 \<rparr>" func]
      that(2) by simp
  show ?thesis
    using non_arm arm direct same_scan by simp
qed

theorem thumb_retry_symmetry_witness:
  "0x1000 + ff_offset thumb_hit \<noteq> (0x1000 :: int)
   \<and> get_by_addr thumb_kb (0x1000 + ff_offset thumb_hit) = Inl KeyError
   \<and> get_by_addr thumb_kb (0x1000 + ff_offset thumb_hit + 1) = Inr 1
   \<and> on_func_matched True 0 0x1000 thumb_hit thumb_kb =
       on_func_matched True 0 0x1000 \<lparr> ff_offset = 0x21, ff_name = ''strlen'' \<rparr> thumb_kb
   \<and> on_func_matched True 0 0x1000 thumb_hit thumb_kb =
       thumb_kb[1 := set_name thumb_hit (thumb_kb ! 1)]
   \<and> name (on_func_matched True 0 0x1000 thumb_hit thumb_kb ! 1) = ''strlen''
   \<and> on_func_matched False 0 0x1000 thumb_hit thumb_kb = thumb_kb"
proof -
  have h1: "0x1000 + ff_offset thumb_hit \<noteq> (0x1000 :: int)"
    by (simp add: thumb_hit_def)
  have h2: "get_by_addr thumb_kb (0x1000 + ff_offset thumb_hit) = Inl KeyError"
    by (simp add: thumb_hit_def thumb_kb_def get_by_addr_def example_function_def)
  have h3: "get_by_addr thumb_kb (0x1000 + ff_offset thumb_hit + 1) = Inr 1"
    by (simp add: thumb_hit_def thumb_kb_def get_by_addr_def example_function_def)
  have named: "name (thumb_kb[1 := set_name thumb_hit (thumb_kb ! 1)] ! 1) = ''strlen''"
    by (simp add: thumb_hit_def thumb_kb_def set_name_def example_function_def)
  show ?thesis
    using h1 h2 h3 named
      thumb_retry_symmetry [OF h1 h2, of 1 0]
    by (simp add: thumb_hit_def)
qed

subsection \<open>The scan window\<close>

lemma scan_window_value:
  assumes "block_addrs_set func \<noteq> []"
  shows "scan_window is_arm func =
     Inr (if is_arm then addr func AND 0xfffffffe else addr func,
          if is_arm
          then (Max (set (block_addrs_set func))
                + block_size func (Max (set (block_addrs_set func)))) AND 0xfffffffe
          else Max (set (block_addrs_set func))
                + block_size func (Max (set (block_addrs_set func))))"
  using py_max_Max [OF assms] by (simp add: scan_window_def Let_def)

lemma match_one_function_eligible:
  assumes "eligible (kb ! i)" and "scan_window is_arm (kb ! i) = Inr (start, end)"
  shows "match_one_function p is_arm flirt i kb =
     (case memory_load p start (end - start + 0x100) of
        Inl e \<Rightarrow> Inl e
      | Inr func_bytes \<Rightarrow>
          Inr (fold (on_func_matched is_arm i start) (match_function p flirt func_bytes start) kb))"
  using assms by (simp add: match_one_function_def eligible_def Let_def)

text \<open>
  C2 as stated fails on ARM: the Thumb function at 0x1001 whose last block ends at 0x1031
  is scanned from 0x1000 to 0x1030.
\<close>

theorem scan_window_unmasked_counterexample:
  "eligible thumb_function
   \<and> addr thumb_function = 0x1001
   \<and> Max (set (block_addrs_set thumb_function))
       + block_size thumb_function (Max (set (block_addrs_set thumb_function))) = 0x1031
   \<and> scan_window True thumb_function = Inr (0x1000, 0x1030)
   \<and> scan_window True thumb_function \<noteq>
       Inr (addr thumb_function,
            Max (set (block_addrs_set thumb_function))
            + block_size thumb_function (Max (set (block_addrs_set thumb_function))))"
  by (simp add: thumb_function_def example_function_def eligible_def scan_window_def py_max_def)

text \<open>
  C2, amended: for an eligible function with at least one block, the window starts at the
  function address and ends at the last block's address plus that block's size, each
  masked with 0xfffffffe on ARM and taken as it is elsewhere, and the loader is asked for
  \<open>(end - start) + 0x100\<close> bytes at \<open>start\<close>.
\<close>

theorem scan_window_and_load_request:
  assumes "eligible (kb ! i)" and "block_addrs_set (kb ! i) \<noteq> []"
  shows "\<exists>start end.
           scan_window is_arm (kb ! i) = Inr (start, end)
         \<and> start = (if is_arm then addr (kb ! i) AND 0xfffffffe else addr (kb ! i))
         \<and> end = (if is_arm
                  then (Max (set (block_addrs_set (kb ! i)))
                        + block_size (kb ! i) (Max (set (block_addrs_set (kb ! i))))) AND 0xfffffffe
                  else Max (set (block_addrs_set (kb ! i)))
                        + block_size (kb ! i) (Max (set (block_addrs_set (kb ! i)))))
         \<and> match_one_function p is_arm flirt i kb =
             (case memory_load p start (end - start + 0x100) of
                Inl e \<Rightarrow> Inl e
              | Inr func_bytes \<Rightarrow>
                  Inr (fold (on_func_matched is_arm i start)
                         (match_function p flirt func_bytes start) kb))"
  using scan_window_value [OF assms(2), of is_arm]
    match_one_function_eligible [OF assms(1), of is_arm _ _ p flirt]
  by blast

theorem scan_window_and_load_request_witness:
  "eligible ([scenario_function] ! 0) \<and> block_addrs_set ([scenario_function] ! 0) \<noteq> []
   \<and> scan_window False scenario_function = Inr (0x1000, 0x1030)
   \<and> scan_window True scenario_function = Inr (0x1000, 0x1030)
   \<and> match_one_function (example_project False []) False ''libc.sig'' 0 [scenario_function] =
       (case memory_load (example_project False []) 0x1000 0x130 of
          Inl e \<Rightarrow> Inl e
        | Inr func_bytes \<Rightarrow>
            Inr (fold (on_func_matched False 0 0x1000)
                   (match_function (example_project False []) ''libc.sig'' func_bytes 0x1000)
                   [scenario_function]))"
proof -
  have h1: "eligible ([scenario_function] ! 0)"
    by (simp add: scenario_function_def example_function_def eligible_def)
  have h2: "block_addrs_set ([scenario_function] ! 0) \<noteq> []"
    by (simp add: scenario_function_def example_function_def)
  have last_block: "Max (set (block_addrs_set scenario_function))
      + block_size scenario_function (Max (set (block_addrs_set scenario_function))) = 0x1030"
    by (simp add: scenario_function_def example_function_def)
  have start: "addr scenario_function = 0x1000"
    by (simp add: scenario_function_def example_function_def)
  have masks: "(0x1000 :: int) AND 0xfffffffe = 0x1000" "(0x1030 :: int) AND 0xfffffffe = 0x1030"
    by simp_all
  show ?thesis
    using h1 h2
      scan_window_and_load_request [OF h1 h2, of False "example_project False []" "''libc.sig''"]
      scan_window_and_load_request [OF h1 h2, of True "example_project False []" "''libc.sig''"]
    by (auto simp add: last_block start masks)
qed

subsection \<open>The ARM mask\<close>

text \<open>
  C7 as stated fails above the 32-bit range: the mask is the constant 0xfffffffe, so the
  Thumb function at 0x100000001 is scanned from 0, not from 0x100000000.
\<close>

theorem arm_mask_high_address_counterexample:
  "addr high_thumb_function = 0x100000001
   \<and> scan_window True high_thumb_function = Inr (0, 0x10)
   \<and> scan_window True high_thumb_function \<noteq> Inr (0x100000000, 0x100000010)"
  by (simp add: high_thumb_function_def example_function_def scan_window_def py_max_def)

text \<open>
  C7, amended: on ARM the window start keeps the bits 1 to 31 of the function address and
  no other bit, and the window end keeps the bits 1 to 31 of the last block's end; for a
  value in the 32-bit range this clears the low bit and nothing else.
\<close>

theorem arm_window_mask:
  assumes "block_addrs_set func \<noteq> []"
  shows "\<exists>start end.
           scan_window True func = Inr (start, end)
         \<and> (\<forall>n. bit start n \<longleftrightarrow> bit (addr func) n \<and> 0 < n \<and> n < 32)
         \<and> (\<forall>n. bit end n \<longleftrightarrow>
                  bit (Max (set (block_addrs_set func))
                       + block_size func (Max (set (block_addrs_set func)))) n \<and> 0 < n \<and> n < 32)
         \<and> (0 \<le> addr func \<and> addr func < 2 ^ 32 \<longrightarrow>
              start = addr func - addr func mod 2
              \<and> (\<forall>n. bit start n \<longleftrightarrow> bit (addr func) n \<and> n \<noteq> 0))
         \<and> (0 \<le> Max (set (block_addrs_set func))
                    + block_size func (Max (set (block_addrs_set func)))
              \<and> Max (set (block_addrs_set func))
                    + block_size func (Max (set (block_addrs_set func))) < 2 ^ 32 \<longrightarrow>
              end = Max (set (block_addrs_set func))
                    + block_size func (Max (set (block_addrs_set func)))
                    - (Max (set (block_addrs_set func))
                       + block_size func (Max (set (block_addrs_set func)))) mod 2)"
proof -
  let ?last = "Max (set (block_addrs_set func)) + block_size func (Max (set (block_addrs_set func)))"
  have window: "scan_window True func = Inr (addr func AND 0xfffffffe, ?last AND 0xfffffffe)"
    using scan_window_value [OF assms, of True] by simp
  have only_low: "bit (x AND (0xfffffffe :: int)) n \<longleftrightarrow> bit x n \<and> n \<noteq> 0"
    if "0 \<le> x" and "x < 2 ^ 32" for x n
  proof -
    have "take_bit 32 x = x"
      using that by (simp add: take_bit_int_eq_self)
    then have "bit x n \<Longrightarrow> n < 32"
      by (metis bit_take_bit_iff)
    then show ?thesis
      by (auto simp add: bit_thumb_mask)
  qed
  have start_low: "0 \<le> addr func \<and> addr func < 2 ^ 32 \<longrightarrow>
      addr func AND 0xfffffffe = addr func - addr func mod 2
      \<and> (\<forall>n. bit (addr func AND 0xfffffffe) n \<longleftrightarrow> bit (addr func) n \<and> n \<noteq> 0)"
    using thumb_mask_low [of "addr func"] only_low [of "addr func"] by blast
  have end_low: "0 \<le> ?last \<and> ?last < 2 ^ 32 \<longrightarrow> ?last AND 0xfffffffe = ?last - ?last mod 2"
    using thumb_mask_low [of ?last] by blast
  have bits: "\<forall>n. bit (x AND (0xfffffffe :: int)) n \<longleftrightarrow> bit x n \<and> 0 < n \<and> n < 32" for x
    by (simp add: bit_thumb_mask)
  show ?thesis
    using window start_low end_low bits [of "addr func"] bits [of ?last] by blast
qed

theorem arm_window_mask_witness:
  "block_addrs_set thumb_function \<noteq> []
   \<and> addr thumb_function = 0x1001
   \<and> scan_window True thumb_function = Inr (0x1000, 0x1030)
   \<and> (\<exists>start end. scan_window True thumb_function = Inr (start, end)
        \<and> start = addr thumb_function - addr thumb_function mod 2)"
proof -
  have h: "block_addrs_set thumb_function \<noteq> []"
    by (simp add: thumb_function_def example_function_def)
  have a: "addr thumb_function = 0x1001"
    by (simp add: thumb_function_def example_function_def)
  have w: "scan_window True thumb_function = Inr (0x1000, 0x1030)"
    by (simp add: thumb_function_def example_function_def scan_window_def py_max_def)
  show ?thesis
    using h a w arm_window_mask [OF h] by auto
qed

subsection \<open>A signature file that does not parse\<close>

lemma match_signatures_append:
  "match_signatures p is_arm (sigs @ sigs') w =
     (case match_signatures p is_arm sigs w of
        (Some e, w') \<Rightarrow> (Some e, w')
      | (None, w') \<Rightarrow> match_signatures p is_arm sigs' w')"
proof (induction sigs arbitrary: w)
  case Nil
  then show ?case by simp
next
  case (Cons sig sigs)
  then show ?case
    by (cases "match_all_against_one_signature p is_arm sig w")
       (simp split: option.splits)
qed

lemma match_all_against_one_signature_parse_error:
  assumes "open_rb p (sig_path sig) = Inr content" and "parse_flirt_file p content = Inl e"
  shows "match_all_against_one_signature p is_arm sig w = (Some e, w)"
  using assms by (simp add: match_all_against_one_signature_def)

text \<open>
  C6 as stated fails in its second half: with a first signature file that does not parse,
  the run ends with the parse error and the second signature, which alone would name the
  function \<open>memcpy\<close>, is never applied.
\<close>

theorem parse_failure_skips_rest_counterexample:
  "match_signatures (example_project False start_hit) False
      [temporary_signature (example_project False start_hit) ''bad.sig'',
       temporary_signature (example_project False start_hit) ''libc.sig''] single_world =
     (Some FlirtException, single_world)
   \<and> name (kb_functions single_world ! 0) = ''sub''
   \<and> name (kb_functions (snd (match_signatures (example_project False start_hit) False
        [temporary_signature (example_project False start_hit) ''libc.sig''] single_world)) ! 0) =
       ''memcpy''"
  by (simp add: example_project_def start_hit_def temporary_signature_def single_world_def
      example_function_def match_all_against_one_signature_def match_one_function_def
      scan_window_def py_max_def on_func_matched_def resolve_func_def set_name_def Let_def)

text \<open>
  C6, amended: when the database of a signature fails to parse, the file handle of that
  signature is closed again (the open handles are those from before it was opened), the
  functions are as the signatures before it left them, and the run ends with the parse
  error: no later signature is processed. After every run the open handles are those from
  before the run.
\<close>

theorem parse_failure_closes_file_and_ends_run:
  assumes "open_rb p (sig_path sig) = Inr content"
    and "parse_flirt_file p content = Inl e"
    and "match_signatures p is_arm before w = (None, w')"
  shows "match_all_against_one_signature p is_arm sig w' = (Some e, w')
       \<and> match_signatures p is_arm (before @ sig # after) w = (Some e, w')
       \<and> open_files w' = open_files w
       \<and> open_files (snd (match_signatures p is_arm sigs w)) = open_files w"
proof -
  have one: "match_all_against_one_signature p is_arm sig w' = (Some e, w')"
    using assms(1,2) by (rule match_all_against_one_signature_parse_error)
  have run: "match_signatures p is_arm (before @ sig # after) w = (Some e, w')"
    using assms(3) one by (simp add: match_signatures_append)
  have "open_files w' = open_files w"
    using match_signatures_open_files [of p is_arm before w] assms(3) by simp
  then show ?thesis
    using one run by (simp add: match_signatures_open_files)
qed

theorem parse_failure_closes_file_and_ends_run_witness:
  "open_rb (example_project False start_hit)
      (sig_path (temporary_signature (example_project False start_hit) ''bad.sig'')) = Inr ''bad.sig''
   \<and> parse_flirt_file (example_project False start_hit) ''bad.sig'' = Inl FlirtException
   \<and> match_signatures (example_project False start_hit) False [] single_world = (None, single_world)
   \<and> match_signatures (example_project False start_hit) False
        ([] @ temporary_signature (example_project False start_hit) ''bad.sig''
            # [temporary_signature (example_project False start_hit) ''libc.sig'']) single_world =
       (Some FlirtException, single_world)"
proof -
  let ?p = "example_project False start_hit"
  have h1: "open_rb ?p (sig_path (temporary_signature ?p ''bad.sig'')) = Inr ''bad.sig''"
    by (simp add: example_project_def temporary_signature_def)
  have h2: "parse_flirt_file ?p ''bad.sig'' = Inl FlirtException"
    by (simp add: example_project_def)
  have h3: "match_signatures ?p False [] single_world = (None, single_world)"
    by simp
  show ?thesis
    using h1 h2 h3
      parse_failure_closes_file_and_ends_run [OF h1 h2 h3,
        of "[temporary_signature ?p ''libc.sig'']" "[]"]
    by simp
qed

subsection \<open>A function without blocks\<close>

lemma scan_window_empty: "block_addrs_set func = [] \<Longrightarrow> scan_window is_arm func = Inl ValueError"
  by (simp add: scan_window_def py_max_def)

lemma match_one_function_empty:
  "eligible (kb ! i) \<Longrightarrow> block_addrs_set (kb ! i) = [] \<Longrightarrow>
   match_one_function p is_arm flirt i kb = Inl ValueError"
  by (simp add: match_one_function_def eligible_def scan_window_empty Let_def)

lemma match_functions_append:
  "match_functions p is_arm flirt (js @ ks) kb =
     (case match_functions p is_arm flirt js kb of
        (Some e, kb') \<Rightarrow> (Some e, kb')
      | (None, kb') \<Rightarrow> match_functions p is_arm flirt ks kb')"
proof (induction js arbitrary: kb)
  case Nil
  then show ?case by simp
next
  case (Cons j js)
  then show ?case
    by (cases "match_one_function p is_arm flirt j kb") simp_all
qed

lemma match_functions_reaches_empty:
  assumes "i < n"
    and "match_functions p is_arm flirt [0 ..< i] kb = (None, kb')"
    and "eligible (kb' ! i)"
    and "block_addrs_set (kb' ! i) = []"
  shows "match_functions p is_arm flirt [0 ..< n] kb = (Some ValueError, kb')"
proof -
  have idx: "[0 ..< n] = [0 ..< i] @ i # [Suc i ..< n]"
    using assms(1) upt_add_eq_append [of 0 i "n - i"] upt_conv_Cons [of i n] by simp
  have "match_functions p is_arm flirt (i # [Suc i ..< n]) kb' = (Some ValueError, kb')"
    using assms(3,4) by (simp add: match_one_function_empty)
  then have "match_functions p is_arm flirt ([0 ..< i] @ i # [Suc i ..< n]) kb = (Some ValueError, kb')"
    using assms(2) by (simp add: match_functions_append)
  then show ?thesis
    using idx by metis
qed

text \<open>
  C10: whenever the loop over the functions comes to a function that is eligible at that
  moment and has an empty set of block addresses, \<open>max\<close> raises ValueError. The exception
  leaves the loop over the functions and the loop over the signatures: no later function
  and no later signature is processed, the file handle is closed, and the functions are
  as the earlier scans left them. Any signatures may have been matched before, and any
  functions, eligible or not, may have been processed before in the same loop.
\<close>

theorem empty_block_set_aborts_run:
  assumes "match_signatures p is_arm before w = (None, w0)"
    and "open_rb p (sig_path sig) = Inr content"
    and "parse_flirt_file p content = Inr flirt"
    and "i < length (kb_functions w0)"
    and "match_functions p is_arm flirt [0 ..< i] (kb_functions w0) = (None, kb')"
    and "eligible (kb' ! i)"
    and "block_addrs_set (kb' ! i) = []"
  shows "scan_window is_arm (kb' ! i) = Inl ValueError
       \<and> match_one_function p is_arm flirt i kb' = Inl ValueError
       \<and> match_all_against_one_signature p is_arm sig w0 =
           (Some ValueError, w0\<lparr> kb_functions := kb' \<rparr>)
       \<and> match_signatures p is_arm (before @ sig # after) w =
           (Some ValueError, w0\<lparr> kb_functions := kb' \<rparr>)"
proof -
  have loop: "match_functions p is_arm flirt [0 ..< length (kb_functions w0)] (kb_functions w0) =
      (Some ValueError, kb')"
    using assms(4,5,6,7) by (rule match_functions_reaches_empty)
  have one: "match_all_against_one_signature p is_arm sig w0 =
      (Some ValueError, w0\<lparr> kb_functions := kb' \<rparr>)"
    using assms(2,3) loop by (simp add: match_all_against_one_signature_def)
  have run: "match_signatures p is_arm (before @ sig # after) w =
      (Some ValueError, w0\<lparr> kb_functions := kb' \<rparr>)"
    using assms(1) one by (simp add: match_signatures_append)
  show ?thesis
    using one run assms(6,7) by (simp add: scan_window_empty match_one_function_empty)
qed

theorem empty_block_set_aborts_run_witness:
  "match_signatures (example_project False start_hit) False [] blockless_world =
     (None, blockless_world)
   \<and> open_rb (example_project False start_hit)
        (sig_path (temporary_signature (example_project False start_hit) ''libc.sig'')) =
       Inr ''libc.sig''
   \<and> parse_flirt_file (example_project False start_hit) ''libc.sig'' = Inr ''libc.sig''
   \<and> 1 < length (kb_functions blockless_world)
   \<and> match_functions (example_project False start_hit) False ''libc.sig'' [0 ..< 1]
        (kb_functions blockless_world) =
       (None, (kb_functions blockless_world)
                [0 := set_name \<lparr> ff_offset = 0, ff_name = ''memcpy'' \<rparr>
                        (kb_functions blockless_world ! 0)])
   \<and> eligible (kb_functions blockless_world ! 0)
   \<and> eligible ((kb_functions blockless_world)
                [0 := set_name \<lparr> ff_offset = 0, ff_name = ''memcpy'' \<rparr>
                        (kb_functions blockless_world ! 0)] ! 1)
   \<and> block_addrs_set ((kb_functions blockless_world)
                [0 := set_name \<lparr> ff_offset = 0, ff_name = ''memcpy'' \<rparr>
                        (kb_functions blockless_world ! 0)] ! 1) = []
   \<and> match_signatures (example_project False start_hit) False
        ([] @ temporary_signature (example_project False start_hit) ''libc.sig''
            # [temporary_signature (example_project False start_hit) ''other.sig''])
        blockless_world =
       (Some ValueError,
        blockless_world
          \<lparr> kb_functions :=
              (kb_functions blockless_world)
                [0 := set_name \<lparr> ff_offset = 0, ff_name = ''memcpy'' \<rparr>
                        (kb_functions blockless_world ! 0)] \<rparr>)
   \<and> name (kb_functions (snd (match_signatures (example_project False start_hit) False
        [temporary_signature (example_project False start_hit) ''libc.sig'',
         temporary_signature (example_project False start_hit) ''other.sig''] blockless_world)) ! 0) =
       ''memcpy''
   \<and> name (kb_functions (snd (match_signatures (example_project False start_hit) False
        [temporary_signature (example_project False start_hit) ''libc.sig'',
         temporary_signature (example_project False start_hit) ''other.sig''] blockless_world)) ! 2) =
       ''sub''"
proof -
  let ?p = "example_project False start_hit"
  let ?kb' = "(kb_functions blockless_world)
                [0 := set_name \<lparr> ff_offset = 0, ff_name = ''memcpy'' \<rparr>
                        (kb_functions blockless_world ! 0)]"
  have h1: "match_signatures ?p False [] blockless_world = (None, blockless_world)"
    by simp
  have h2: "open_rb ?p (sig_path (temporary_signature ?p ''libc.sig'')) = Inr ''libc.sig''"
    by (simp add: example_project_def temporary_signature_def)
  have h3: "parse_flirt_file ?p ''libc.sig'' = Inr ''libc.sig''"
    by (simp add: example_project_def)
  have h4: "1 < length (kb_functions blockless_world)"
    by (simp add: blockless_world_def)
  have h5: "match_functions ?p False ''libc.sig'' [0 ..< 1] (kb_functions blockless_world) =
      (None, ?kb')"
    by (simp add: example_project_def start_hit_def blockless_world_def example_function_def
        match_one_function_def scan_window_def py_max_def on_func_matched_def resolve_func_def
        Let_def)
  have h0: "eligible (kb_functions blockless_world ! 0)"
    by (simp add: blockless_world_def example_function_def eligible_def)
  have h6: "eligible (?kb' ! 1)"
    by (simp add: blockless_world_def example_function_def eligible_def)
  have h7: "block_addrs_set (?kb' ! 1) = []"
    by (simp add: blockless_world_def example_function_def)
  have names: "name (?kb' ! 0) = ''memcpy''" "name (?kb' ! 2) = ''sub''"
    by (simp_all add: blockless_world_def example_function_def set_name_def)
  show ?thesis
    using h0 h1 h2 h3 h4 h5 h6 h7 names
      empty_block_set_aborts_run [OF h1 h2 h3 h4 h5 h6 h7,
        of "[temporary_signature ?p ''other.sig'']"]
    by simp
qed

subsection \<open>Stubs and the lookup of a hit\<close>

text \<open>
  C3: the loop skips stubs and simulated procedures, but the lookup of a hit at another
  address does not ask what kind of function it found. Here the function at 0x1000 is
  scanned, the matcher reports \<open>memcpy\<close> at 0x1010, and the unnamed stub at 0x1010 is
  renamed.
\<close>

theorem stub_renamed_by_hit_at_other_address:
  "is_plt (kb_functions stub_world ! 1)
   \<and> name (kb_functions stub_world ! 1) = ''sub''
   \<and> is_default_name (kb_functions stub_world ! 1)
   \<and> from_signature (kb_functions stub_world ! 1) = None
   \<and> fst (FlirtAnalysis_init (example_project False stub_hit) empty_catalog
        (SigPath ''libc.sig'') stub_world) = None
   \<and> kb_functions (snd (snd (FlirtAnalysis_init (example_project False stub_hit) empty_catalog
        (SigPath ''libc.sig'') stub_world))) ! 1 =
       (kb_functions stub_world ! 1)
         \<lparr> name := ''memcpy'', is_default_name := False, from_signature := Some ''flirt'' \<rparr>"
  by (simp add: FlirtAnalysis_init_def select_signatures_def new_analysis_def
      example_project_def stub_hit_def stub_world_def example_function_def
      match_all_against_one_signature_def match_one_function_def scan_window_def py_max_def
      on_func_matched_def resolve_func_def get_by_addr_def set_name_def Let_def)

subsection \<open>Counting the hits\<close>

lemma bytes_contains_sublist: "bytes_contains sub region \<longleftrightarrow> sublist sub region"
  by (induction region) (simp_all add: sublist_Cons_right)

lemma hits_of_Nil: "hits_of [] lib = 0"
  by (simp add: hits_of_def)

lemma hits_of_incr_hit:
  "hits_of (incr_hit lib h) l = hits_of h l + (if l = lib then 1 else 0)"
  by (simp add: incr_hit_def hits_of_def update_conv')

lemma keys_incr_hit: "fst ` set (incr_hit lib h) = insert lib (fst ` set h)"
  by (simp add: incr_hit_def dom_update)

lemma distinct_incr_hit: "distinct (map fst h) \<Longrightarrow> distinct (map fst (incr_hit lib h))"
  by (simp add: incr_hit_def distinct_update)

lemma hits_inv_Nil: "hits_inv []"
  by (simp add: hits_inv_def hits_of_Nil)

lemma hits_inv_incr_hit: "hits_inv h \<Longrightarrow> hits_inv (incr_hit lib h)"
  unfolding hits_inv_def
  by (simp add: distinct_incr_hit keys_incr_hit hits_of_incr_hit del: image_insert)

lemma fold_incr_hit:
  "hits_inv h \<Longrightarrow> distinct libs \<Longrightarrow>
   hits_inv (fold incr_hit libs h)
   \<and> (\<forall>l. hits_of (fold incr_hit libs h) l = hits_of h l + (if l \<in> set libs then 1 else 0))"
proof (induction libs arbitrary: h)
  case Nil
  then show ?case by simp
next
  case (Cons lib libs)
  have "hits_inv (incr_hit lib h)"
    using Cons.prems(1) by (rule hits_inv_incr_hit)
  moreover have "distinct libs" and "lib \<notin> set libs"
    using Cons.prems(2) by simp_all
  ultimately show ?case
    using Cons.IH [of "incr_hit lib h"] by (auto simp add: hits_of_incr_hit)
qed

lemma encode_ascii_ok:
  "list_all (\<lambda>c. (of_char c :: nat) < 128) s \<Longrightarrow> encode_ascii s = Inr s"
  by (simp add: encode_ascii_def)

lemma scan_regions_count:
  assumes "list_all (\<lambda>c. (of_char c :: nat) < 128) s"
  shows "hits_inv h \<Longrightarrow>
         \<exists>h'. scan_regions s libs regions h = Inr h' \<and> hits_inv h'
           \<and> (\<forall>l. hits_of h' l =
                  hits_of h l
                  + length (filter (\<lambda>region. l \<in> set (list_of_dlist libs) \<and> sublist s region)
                              regions))"
proof (induction regions arbitrary: h)
  case Nil
  then show ?case by simp
next
  case (Cons region regions)
  let ?h1 = "if bytes_contains s region then fold incr_hit (list_of_dlist libs) h else h"
  have inv1: "hits_inv ?h1"
    using Cons.prems by (simp add: fold_incr_hit)
  have count1: "hits_of ?h1 l =
      hits_of h l + (if l \<in> set (list_of_dlist libs) \<and> sublist s region then 1 else 0)" for l
    using Cons.prems by (simp add: fold_incr_hit bytes_contains_sublist)
  obtain h' where rest: "scan_regions s libs regions ?h1 = Inr h'" "hits_inv h'"
      "\<forall>l. hits_of h' l =
         hits_of ?h1 l
         + length (filter (\<lambda>region. l \<in> set (list_of_dlist libs) \<and> sublist s region) regions)"
    using Cons.IH [OF inv1] by blast
  have "scan_regions s libs (region # regions) h = Inr h'"
    using rest(1) assms by (simp add: encode_ascii_ok)
  moreover have "hits_of h' l =
      hits_of h l
      + length (filter (\<lambda>region. l \<in> set (list_of_dlist libs) \<and> sublist s region)
                  (region # regions))" for l
    using rest(3) count1 [of l] by simp
  ultimately show ?case
    using rest(2) by blast
qed

lemma scan_tokens_count:
  assumes "list_all (\<lambda>(s, libs). list_all (\<lambda>c. (of_char c :: nat) < 128) s) items"
  shows "hits_inv h \<Longrightarrow>
         \<exists>h'. scan_tokens items regions h = Inr h' \<and> hits_inv h'
           \<and> (\<forall>l. hits_of h' l =
                  hits_of h l
                  + length (filter (\<lambda>((s, libs), region).
                                      l \<in> set (list_of_dlist libs) \<and> sublist s region)
                              (List.product items regions)))"
  using assms
proof (induction items arbitrary: h)
  case Nil
  then show ?case by simp
next
  case (Cons item items)
  obtain s libs where item: "item = (s, libs)"
    by (cases item)
  have ok: "list_all (\<lambda>c. (of_char c :: nat) < 128) s"
    using Cons.prems(2) item by simp
  obtain h1 where first: "scan_regions s libs regions h = Inr h1" "hits_inv h1"
      "\<forall>l. hits_of h1 l =
         hits_of h l
         + length (filter (\<lambda>region. l \<in> set (list_of_dlist libs) \<and> sublist s region) regions)"
    using scan_regions_count [OF ok Cons.prems(1)] by blast
  have items_ok: "list_all (\<lambda>(s, libs). list_all (\<lambda>c. (of_char c :: nat) < 128) s) items"
    using Cons.prems(2) by simp
  obtain h' where rest: "scan_tokens items regions h1 = Inr h'" "hits_inv h'"
      "\<forall>l. hits_of h' l =
         hits_of h1 l
         + length (filter (\<lambda>((s, libs), region).
                             l \<in> set (list_of_dlist libs) \<and> sublist s region)
                     (List.product items regions))"
    using Cons.IH [OF first(2) items_ok] by blast
  have "scan_tokens (item # items) regions h = Inr h'"
    using first(1) rest(1) item by simp
  moreover have "hits_of h' l =
      hits_of h l
      + length (filter (\<lambda>((s, libs), region).
                          l \<in> set (list_of_dlist libs) \<and> sublist s region)
                  (List.product (item # items) regions))" for l
    using first(3) rest(3) item by (simp add: filter_map comp_def)
  ultimately show ?case
    using rest(2) by blast
qed

text \<open>Without a buffer no token is encoded and nothing is counted.\<close>

lemma scan_tokens_no_regions: "scan_tokens items [] h = Inr h"
  by (induction items) auto

lemma product_no_regions: "List.product items ([] :: bytes list) = []"
  by (induction items) simp_all

text \<open>With a buffer, the first token that is not ASCII ends the selection.\<close>

lemma scan_regions_raise:
  "\<not> list_all (\<lambda>c. (of_char c :: nat) < 128) s \<Longrightarrow> regions \<noteq> [] \<Longrightarrow>
   scan_regions s libs regions h = Inl UnicodeEncodeError"
  by (cases regions) (simp_all add: encode_ascii_def)

lemma scan_tokens_raise:
  assumes "regions \<noteq> []"
  shows "hits_inv h \<Longrightarrow>
         \<not> list_all (\<lambda>(s, libs). list_all (\<lambda>c. (of_char c :: nat) < 128) s) items \<Longrightarrow>
         scan_tokens items regions h = Inl UnicodeEncodeError"
proof (induction items arbitrary: h)
  case Nil
  then show ?case by simp
next
  case (Cons item items)
  obtain s libs where item: "item = (s, libs)"
    by (cases item)
  show ?case
  proof (cases "list_all (\<lambda>c. (of_char c :: nat) < 128) s")
    case True
    obtain h1 where first: "scan_regions s libs regions h = Inr h1" "hits_inv h1"
      using scan_regions_count [OF True Cons.prems(1)] by blast
    have "\<not> list_all (\<lambda>(s, libs). list_all (\<lambda>c. (of_char c :: nat) < 128) s) items"
      using Cons.prems(2) True item by simp
    then have "scan_tokens items regions h1 = Inl UnicodeEncodeError"
      using Cons.IH [OF first(2)] by simp
    then show ?thesis
      using first(1) item by simp
  next
    case False
    then show ?thesis
      using assms item by (simp add: scan_regions_raise)
  qed
qed

subsection \<open>Ranking and output\<close>

lemma sorted_libraries_ranked:
  "hits_inv h \<Longrightarrow>
   distinct (sorted_libraries h) \<and> set (sorted_libraries h) = {l. 0 < hits_of h l}
   \<and> sorted_wrt (\<lambda>a b. hits_of h b \<le> hits_of h a) (sorted_libraries h)"
proof -
  assume inv: "hits_inv h"
  have "sorted (map (\<lambda>lib. - int (hits_of h lib)) (sorted_libraries h))"
    unfolding sorted_libraries_def by (rule sorted_sort_key)
  then have "sorted_wrt (\<lambda>a b. hits_of h b \<le> hits_of h a) (sorted_libraries h)"
    by (simp add: sorted_map)
  moreover have "distinct (sorted_libraries h)"
    using inv by (simp add: sorted_libraries_def hits_inv_def)
  moreover have "set (sorted_libraries h) = {l. 0 < hits_of h l}"
    using inv by (auto simp add: sorted_libraries_def hits_inv_def)
  ultimately show ?thesis by blast
qed

lemma yield_signatures_concat:
  "yield_signatures cat arch_lowercase libs =
     concat (map (\<lambda>lib. filter (\<lambda>sig. arch sig = arch_lowercase) (library_signatures cat lib)) libs)"
  by (induction libs) simp_all

lemma find_hits_by_strings_ranking:
  assumes "wf_catalog cat \<or> regions = []"
  shows "\<exists>ranked.
           find_hits_by_strings cat target regions =
             Inr (concat (map (\<lambda>lib. filter (\<lambda>sig. arch sig = lower target)
                                       (library_signatures cat lib)) ranked))
         \<and> distinct ranked
         \<and> set ranked = {lib. 0 < hit_count cat regions lib}
         \<and> sorted_wrt (\<lambda>a b. hit_count cat regions b \<le> hit_count cat regions a) ranked"
proof -
  have "\<exists>h. scan_tokens (STRING_TO_LIBRARIES cat) regions [] = Inr h \<and> hits_inv h
      \<and> (\<forall>l. hits_of h l = hit_count cat regions l)"
  proof (cases "regions = []")
    case True
    then show ?thesis
      by (simp add: scan_tokens_no_regions hits_inv_Nil hits_of_Nil hit_count_def
          product_no_regions)
  next
    case False
    then have "list_all (\<lambda>(s, libs). list_all (\<lambda>c. (of_char c :: nat) < 128) s)
        (STRING_TO_LIBRARIES cat)"
      using assms by (simp add: wf_catalog_def)
    then show ?thesis
      using scan_tokens_count [OF _ hits_inv_Nil, of "STRING_TO_LIBRARIES cat" regions]
      by (auto simp add: hits_of_Nil hit_count_def)
  qed
  then obtain h where h: "scan_tokens (STRING_TO_LIBRARIES cat) regions [] = Inr h" "hits_inv h"
      "\<forall>l. hits_of h l = hit_count cat regions l"
    by blast
  let ?ranked = "sorted_libraries h"
  have ranked: "distinct ?ranked" "set ?ranked = {lib. 0 < hit_count cat regions lib}"
      "sorted_wrt (\<lambda>a b. hit_count cat regions b \<le> hit_count cat regions a) ?ranked"
    using sorted_libraries_ranked [OF h(2)] h(3) by simp_all
  have "find_hits_by_strings cat target regions =
      Inr (concat (map (\<lambda>lib. filter (\<lambda>sig. arch sig = lower target)
                                (library_signatures cat lib)) ?ranked))"
    using h(1) by (simp add: find_hits_by_strings_def yield_signatures_concat)
  then show ?thesis
    using ranked by blast
qed

lemma find_hits_by_strings_raise:
  assumes "\<not> wf_catalog cat" and "regions \<noteq> []"
  shows "find_hits_by_strings cat target regions = Inl UnicodeEncodeError"
  using assms scan_tokens_raise [OF assms(2) hits_inv_Nil, of "STRING_TO_LIBRARIES cat"]
  by (simp add: find_hits_by_strings_def wf_catalog_def)

text \<open>
  C1 as stated fails for a catalog with a token that is not ASCII: with one buffer, the
  encoding of that token raises UnicodeEncodeError and no signature is yielded, although
  the buffer contains the token of \<open>zlib\<close>.
\<close>

theorem non_ascii_token_raises_counterexample:
  "0 < hit_count latin_catalog [scenario_buffer] ''zlib''
   \<and> library_signatures latin_catalog ''zlib'' =
       [zlib_x86_linux, zlib_amd64_linux, zlib_x86_win32]
   \<and> find_hits_by_strings latin_catalog ''x86'' [scenario_buffer] = Inl UnicodeEncodeError"
proof -
  have "0 < hit_count latin_catalog [scenario_buffer] ''zlib''"
    by (simp add: hit_count_def latin_catalog_def scenario_catalog_def scenario_buffer_def
        bytes_contains_sublist [symmetric])
  moreover have "find_hits_by_strings latin_catalog ''x86'' [scenario_buffer] =
      Inl UnicodeEncodeError"
    by (simp add: find_hits_by_strings_def latin_catalog_def scenario_catalog_def
        scenario_buffer_def encode_ascii_def incr_hit_def hits_of_def)
  ultimately show ?thesis
    by (simp add: library_signatures_def latin_catalog_def scenario_catalog_def)
qed

text \<open>
  C1, amended: for a catalog all of whose tokens are ASCII, or without any buffer, the
  result is the concatenation, over the ranked libraries, of each library's signatures
  whose architecture is the lower-cased target, in catalog order. The ranked libraries are
  exactly the libraries with at least one hit, each once, and no library comes before one
  with more hits. When one library alone has hits, the result is that library's
  signatures for the target. For a catalog with a token that is not ASCII and at least
  one buffer, the selection raises UnicodeEncodeError.
\<close>

theorem find_hits_by_strings_ranked_signatures:
  "(wf_catalog cat \<or> regions = [] \<longrightarrow>
      (\<exists>ranked.
          find_hits_by_strings cat target regions =
            Inr (concat (map (\<lambda>lib. filter (\<lambda>sig. arch sig = lower target)
                                      (library_signatures cat lib)) ranked))
        \<and> distinct ranked
        \<and> set ranked = {lib. 0 < hit_count cat regions lib}
        \<and> sorted_wrt (\<lambda>a b. hit_count cat regions b \<le> hit_count cat regions a) ranked)
      \<and> (\<forall>only. {lib. 0 < hit_count cat regions lib} = {only} \<longrightarrow>
            find_hits_by_strings cat target regions =
              Inr (filter (\<lambda>sig. arch sig = lower target) (library_signatures cat only))))
   \<and> (\<not> wf_catalog cat \<and> regions \<noteq> [] \<longrightarrow>
        find_hits_by_strings cat target regions = Inl UnicodeEncodeError)"
proof -
  have ranking: "(\<exists>ranked.
          find_hits_by_strings cat target regions =
            Inr (concat (map (\<lambda>lib. filter (\<lambda>sig. arch sig = lower target)
                                      (library_signatures cat lib)) ranked))
        \<and> distinct ranked
        \<and> set ranked = {lib. 0 < hit_count cat regions lib}
        \<and> sorted_wrt (\<lambda>a b. hit_count cat regions b \<le> hit_count cat regions a) ranked)
      \<and> (\<forall>only. {lib. 0 < hit_count cat regions lib} = {only} \<longrightarrow>
            find_hits_by_strings cat target regions =
              Inr (filter (\<lambda>sig. arch sig = lower target) (library_signatures cat only)))"
    if ok: "wf_catalog cat \<or> regions = []"
  proof -
    obtain ranked where ranked:
        "find_hits_by_strings cat target regions =
           Inr (concat (map (\<lambda>lib. filter (\<lambda>sig. arch sig = lower target)
                                     (library_signatures cat lib)) ranked))"
        "distinct ranked" "set ranked = {lib. 0 < hit_count cat regions lib}"
        "sorted_wrt (\<lambda>a b. hit_count cat regions b \<le> hit_count cat regions a) ranked"
      using find_hits_by_strings_ranking [OF ok, of target] by blast
    have "find_hits_by_strings cat target regions =
        Inr (filter (\<lambda>sig. arch sig = lower target) (library_signatures cat only))"
      if "{lib. 0 < hit_count cat regions lib} = {only}" for only
    proof -
      have "set ranked = {only}"
        using that ranked(3) by simp
      then have "ranked = [only]"
        using ranked(2)
        by (metis distinct.simps(2) empty_iff insert_iff list.exhaust list.set_intros(1)
            list.set_intros(2) set_empty2)
      then show ?thesis
        using ranked(1) by simp
    qed
    then show ?thesis
      using ranked by blast
  qed
  show ?thesis
    using ranking find_hits_by_strings_raise [of cat regions target] by blast
qed

lemma scenario_hits:
  "hit_count scenario_catalog [scenario_buffer] lib = (if lib = ''zlib'' then 1 else 0)"
  by (simp add: hit_count_def scenario_catalog_def scenario_buffer_def
      bytes_contains_sublist [symmetric])

theorem find_hits_by_strings_ranked_signatures_witness:
  "wf_catalog scenario_catalog
   \<and> {lib. 0 < hit_count scenario_catalog [scenario_buffer] lib} = {''zlib''}
   \<and> find_hits_by_strings scenario_catalog ''x86'' [scenario_buffer] =
       Inr (filter (\<lambda>sig. arch sig = lower ''x86'') (library_signatures scenario_catalog ''zlib''))
   \<and> find_hits_by_strings scenario_catalog ''x86'' [scenario_buffer] =
       Inr [zlib_x86_linux, zlib_x86_win32]
   \<and> \<not> wf_catalog latin_catalog
   \<and> [scenario_buffer] \<noteq> []
   \<and> find_hits_by_strings latin_catalog ''x86'' [scenario_buffer] = Inl UnicodeEncodeError"
proof -
  have wf: "wf_catalog scenario_catalog"
    by (simp add: wf_catalog_def scenario_catalog_def)
  have only: "{lib. 0 < hit_count scenario_catalog [scenario_buffer] lib} = {''zlib''}"
    by (auto simp add: scenario_hits)
  have low: "lower ''x86'' = ''x86''"
    by code_simp
  have sigs: "filter (\<lambda>sig. arch sig = ''x86'') (library_signatures scenario_catalog ''zlib'') =
      [zlib_x86_linux, zlib_x86_win32]"
    by (simp add: library_signatures_def scenario_catalog_def zlib_x86_linux_def
        zlib_amd64_linux_def zlib_x86_win32_def)
  have not_wf: "\<not> wf_catalog latin_catalog"
    by (simp add: wf_catalog_def latin_catalog_def scenario_catalog_def)
  show ?thesis
    using wf only sigs not_wf
      find_hits_by_strings_ranked_signatures [of scenario_catalog "[scenario_buffer]" "''x86''"]
      find_hits_by_strings_ranked_signatures [of latin_catalog "[scenario_buffer]" "''x86''"]
    by (simp add: low)
qed

subsection \<open>The architecture filter\<close>

text \<open>
  C5 as stated fails for a signature whose architecture is stored with capitals: only
  the target name is lower-cased, the stored string is compared as it is. The signature
  stored as \<open>X86\<close> belongs to a library with a hit and equals the target \<open>x86\<close> up to
  letter case, and it is not selected.
\<close>

theorem capital_architecture_not_selected_counterexample:
  "lower (arch capital_signature) = lower ''x86''
   \<and> 0 < hit_count capital_catalog [scenario_buffer] ''zlib''
   \<and> capital_signature \<in> set (library_signatures capital_catalog ''zlib'')
   \<and> find_hits_by_strings capital_catalog ''x86'' [scenario_buffer] = Inr []"
proof -
  have "lower ''X86'' = lower ''x86''"
    by code_simp
  moreover have "0 < hit_count capital_catalog [scenario_buffer] ''zlib''"
    by (simp add: hit_count_def capital_catalog_def scenario_buffer_def
        bytes_contains_sublist [symmetric])
  moreover have "find_hits_by_strings capital_catalog ''x86'' [scenario_buffer] = Inr []"
    by (simp add: find_hits_by_strings_def capital_catalog_def scenario_buffer_def
        encode_ascii_def sorted_libraries_def incr_hit_def hits_of_def lower_def lower_char_def
        capital_signature_def library_signatures_def)
  ultimately show ?thesis
    by (simp add: capital_signature_def library_signatures_def capital_catalog_def)
qed

text \<open>
  C5, amended: for a catalog all of whose tokens are ASCII, a signature of a library with
  at least one hit is in the output if and only if its stored architecture string is
  equal, character by character, to the lower-cased name of the target architecture.
\<close>

theorem signature_selected_iff_arch_is_lowered_target:
  assumes "wf_catalog cat"
    and "0 < hit_count cat regions lib"
    and "sig \<in> set (library_signatures cat lib)"
  shows "\<exists>out. find_hits_by_strings cat target regions = Inr out
           \<and> (sig \<in> set out \<longleftrightarrow> arch sig = lower target)"
proof -
  have "wf_catalog cat \<or> regions = []"
    using assms(1) by simp
  then obtain ranked where ranked:
      "find_hits_by_strings cat target regions =
         Inr (concat (map (\<lambda>lib. filter (\<lambda>sig. arch sig = lower target)
                                   (library_signatures cat lib)) ranked))"
      "set ranked = {lib. 0 < hit_count cat regions lib}"
    using find_hits_by_strings_ranking [of cat regions target] by blast
  have "lib \<in> set ranked"
    using ranked(2) assms(2) by simp
  then have "sig \<in> set (concat (map (\<lambda>lib. filter (\<lambda>sig. arch sig = lower target)
                                   (library_signatures cat lib)) ranked))
      \<longleftrightarrow> arch sig = lower target"
    using assms(3) by auto
  then show ?thesis
    using ranked(1) by simp
qed

theorem signature_selected_iff_arch_is_lowered_target_witness:
  "wf_catalog scenario_catalog
   \<and> 0 < hit_count scenario_catalog [scenario_buffer] ''zlib''
   \<and> zlib_x86_linux \<in> set (library_signatures scenario_catalog ''zlib'')
   \<and> zlib_amd64_linux \<in> set (library_signatures scenario_catalog ''zlib'')
   \<and> arch zlib_x86_linux = lower ''X86''
   \<and> arch zlib_amd64_linux \<noteq> lower ''X86''
   \<and> (\<exists>out. find_hits_by_strings scenario_catalog ''X86'' [scenario_buffer] = Inr out
         \<and> zlib_x86_linux \<in> set out \<and> zlib_amd64_linux \<notin> set out)"
proof -
  have wf: "wf_catalog scenario_catalog"
    by (simp add: wf_catalog_def scenario_catalog_def)
  have hit: "0 < hit_count scenario_catalog [scenario_buffer] ''zlib''"
    by (simp add: scenario_hits)
  have m1: "zlib_x86_linux \<in> set (library_signatures scenario_catalog ''zlib'')"
    by (simp add: library_signatures_def scenario_catalog_def)
  have m2: "zlib_amd64_linux \<in> set (library_signatures scenario_catalog ''zlib'')"
    by (simp add: library_signatures_def scenario_catalog_def)
  have low: "lower ''X86'' = ''x86''"
    by code_simp
  have a1: "arch zlib_x86_linux = lower ''X86''"
    by (simp add: low zlib_x86_linux_def)
  have a2: "arch zlib_amd64_linux \<noteq> lower ''X86''"
    by (simp add: low zlib_amd64_linux_def)
  show ?thesis
    using wf hit m1 m2 a1 a2
      signature_selected_iff_arch_is_lowered_target [OF wf hit m1, of "''X86''"]
      signature_selected_iff_arch_is_lowered_target [OF wf hit m2, of "''X86''"]
    by auto
qed

end
